theory Spec2Isabelle
  imports Main "HOL-Library.Word" "HOL-Library.Sublist"
begin

section \<open>Constants of package network\<close>

text \<open>Maximum time to wait for the xtables lock when using iptables.\<close>

definition xtableLockWait :: string where
  "xtableLockWait = ''3''"

text \<open>
  Modelled from the spec: the constant \<open>metaDataIP\<close> is declared in another file of
  package network. The doc comment of \<open>ipTableRules\<close> gives the address of the
  meta-data service as 169.254.169.254.
\<close>

definition metaDataIP :: string where
  "metaDataIP = ''169.254.169.254''"

section \<open>Addresses: the part of Go's net.IP that ipTableRules calls\<close>

text \<open>
  A \<open>net.IP\<close> is a byte slice. \<open>To4\<close> returns the 4-byte form of an address that is
  4 bytes long or is a 16-byte IPv4-mapped address, and nil (here \<open>None\<close>) otherwise.
\<close>

type_synonym IP = "8 word list"

definition To4 :: "IP \<Rightarrow> IP option" where
  "To4 ip =
     (if length ip = 4 then Some ip
      else if length ip = 16 \<and> take 10 ip = replicate 10 0
              \<and> ip ! 10 = 0xff \<and> ip ! 11 = 0xff
           then Some (drop 12 ip)
      else None)"

text \<open>Decimal digits of one byte, without leading zeros.\<close>

definition digit :: "nat \<Rightarrow> char" where
  "digit n = ''0123456789'' ! n"

definition ubtoa :: "8 word \<Rightarrow> string" where
  "ubtoa v =
     (let n = unat v in
      if n < 10 then [digit n]
      else if n < 100 then [digit (n div 10), digit (n mod 10)]
      else [digit (n div 100), digit (n div 10 mod 10), digit (n mod 10)])"

text \<open>
  \<open>String\<close> on the 4-byte address that \<open>To4\<close> returned: dotted decimal. The function
  is only called on such an address; the other lengths are given the empty string here.
\<close>

fun String4 :: "IP \<Rightarrow> string" where
  "String4 [a, b, c, d] = ubtoa a @ ''.'' @ ubtoa b @ ''.'' @ ubtoa c @ ''.'' @ ubtoa d"
| "String4 _ = ''''"

section \<open>VPN connections\<close>

text \<open>
  Modelled from the spec: the type \<open>openvpn.VPN\<close> lives in another package. The code
  uses two of its methods: \<open>DeviceName()\<close>, the name of the VPN's own network
  attachment, and \<open>Routes()\<close>, the list of addresses routed through it.
\<close>

record VPN =
  DeviceName :: string
  Routes :: "IP list"

section \<open>ipTableRules\<close>

type_synonym command = "string list"

text \<open>
  The local closure \<open>prefixCommands\<close>: a loop appending \<open>prefix + rule\<close> to \<open>cmds\<close> for
  each rule (the parameter \<open>prefix\<close> is written \<open>pre\<close>, the parameter \<open>rules\<close> is written \<open>rs\<close>).
\<close>

fun prefixLoop :: "string list \<Rightarrow> command list \<Rightarrow> command list \<Rightarrow> command list" where
  "prefixLoop pre cmds [] = cmds"
| "prefixLoop pre cmds (rule # rs) = prefixLoop pre (cmds @ [pre @ rule]) rs"

definition prefixCommands :: "string list \<Rightarrow> command list \<Rightarrow> command list" where
  "prefixCommands pre rs = prefixLoop pre [] rs"

text \<open>Create/delete custom chains for this tap device (\<open>chains\<close> in the source).\<close>

definition chains_cmds :: "string \<Rightarrow> string \<Rightarrow> command list" where
  "chains_cmds chainAction tapDevice =
     prefixCommands [''iptables'', ''-w'', xtableLockWait, chainAction]
       [[''input_'' @ tapDevice],
        [''output_'' @ tapDevice],
        [''fwd_input_'' @ tapDevice],
        [''fwd_output_'' @ tapDevice]]"

text \<open>Rules for jumping to custom chains for this tap device.\<close>

definition rules :: "string \<Rightarrow> string \<Rightarrow> command list" where
  "rules ruleAction tapDevice =
     prefixCommands [''iptables'', ''-w'', xtableLockWait, ruleAction]
       [[''INPUT'', ''-i'', tapDevice, ''-j'', ''input_'' @ tapDevice],
        [''OUTPUT'', ''-o'', tapDevice, ''-j'', ''output_'' @ tapDevice],
        [''FORWARD'', ''-i'', tapDevice, ''-j'', ''fwd_input_'' @ tapDevice],
        [''FORWARD'', ''-o'', tapDevice, ''-j'', ''fwd_output_'' @ tapDevice]]"

text \<open>Rules for nat from this subnet (\<open>nat\<close> in the source).\<close>

definition natRules :: "string \<Rightarrow> string \<Rightarrow> command list" where
  "natRules ruleAction subnet =
     prefixCommands [''iptables'', ''-w'', xtableLockWait, ''-t'', ''nat'', ruleAction]
       [[''POSTROUTING'', ''-o'', ''eth0'', ''-s'', subnet, ''-j'', ''MASQUERADE'']]"

text \<open>Rules for filtering INPUT from this tap device.\<close>

definition inputRules :: "string \<Rightarrow> string \<Rightarrow> string \<Rightarrow> string \<Rightarrow> command list" where
  "inputRules ruleAction tapDevice subnet gateway =
     prefixCommands [''iptables'', ''-w'', xtableLockWait, ruleAction, ''input_'' @ tapDevice]
       [[''-p'', ''tcp'', ''-s'', subnet, ''-d'', metaDataIP, ''-m'', ''tcp'', ''--dport'', ''80'',
         ''-m'', ''state'', ''--state'', ''NEW,ESTABLISHED'', ''-j'', ''ACCEPT''],
        [''-p'', ''tcp'', ''-s'', subnet, ''-d'', gateway, ''-m'', ''tcp'', ''--dport'', ''53'',
         ''-m'', ''state'', ''--state'', ''NEW,ESTABLISHED'', ''-j'', ''ACCEPT''],
        [''-p'', ''udp'', ''-s'', subnet, ''-d'', gateway, ''-m'', ''udp'', ''--dport'', ''53'',
         ''-m'', ''state'', ''--state'', ''NEW,ESTABLISHED'', ''-j'', ''ACCEPT''],
        [''-s'', ''0.0.0.0'', ''-d'', ''255.255.255.255'', ''-p'', ''udp'', ''-m'', ''udp'',
         ''--sport'', ''68'', ''--dport'', ''67'', ''-j'', ''ACCEPT''],
        [''-s'', subnet, ''-d'', gateway, ''-p'', ''udp'', ''-m'', ''udp'',
         ''--sport'', ''68'', ''--dport'', ''67'', ''-j'', ''ACCEPT''],
        [''-s'', subnet, ''-d'', metaDataIP, ''-j'', ''REJECT'', ''--reject-with'',
         ''icmp-port-unreachable''],
        [''-j'', ''REJECT'', ''--reject-with'', ''icmp-host-unreachable'']]"

text \<open>Rules for filtering OUTPUT to this tap device.\<close>

definition outputRules :: "string \<Rightarrow> string \<Rightarrow> string \<Rightarrow> string \<Rightarrow> command list" where
  "outputRules ruleAction tapDevice subnet gateway =
     prefixCommands [''iptables'', ''-w'', xtableLockWait, ruleAction, ''output_'' @ tapDevice]
       [[''-p'', ''tcp'', ''-s'', metaDataIP, ''-d'', subnet, ''-m'', ''tcp'', ''--sport'', ''80'',
         ''-m'', ''state'', ''--state'', ''ESTABLISHED'', ''-j'', ''ACCEPT''],
        [''-p'', ''udp'', ''-s'', gateway, ''-d'', subnet, ''-m'', ''udp'', ''--sport'', ''53'',
         ''-m'', ''state'', ''--state'', ''ESTABLISHED'', ''-j'', ''ACCEPT''],
        [''-p'', ''tcp'', ''-s'', gateway, ''-d'', subnet, ''-m'', ''tcp'', ''--sport'', ''53'',
         ''-m'', ''state'', ''--state'', ''ESTABLISHED'', ''-j'', ''ACCEPT''],
        [''-p'', ''udp'', ''-s'', gateway, ''-m'', ''udp'', ''--sport'', ''67'', ''--dport'', ''68'',
         ''-j'', ''ACCEPT''],
        [''-j'', ''REJECT'', ''--reject-with'', ''icmp-net-prohibited'']]"

text \<open>
  Create VPN forwarding rules: the two nested loops over the VPNs and their routes. The
  state is the pair (\<open>forwardVPNInputRules\<close>, \<open>forwardVPNOutputRules\<close>). A route whose
  \<open>To4\<close> is nil is skipped (the source logs it with \<open>debug\<close> and continues).
\<close>

fun routeLoop :: "string \<Rightarrow> string \<Rightarrow> IP list \<Rightarrow> command list \<times> command list
    \<Rightarrow> command list \<times> command list" where
  "routeLoop subnet dev [] acc = acc"
| "routeLoop subnet dev (ip # ips) (forwardVPNInputRules, forwardVPNOutputRules) =
     (case To4 ip of
        None \<Rightarrow> routeLoop subnet dev ips (forwardVPNInputRules, forwardVPNOutputRules)
      | Some ipv4 \<Rightarrow>
          (let route = String4 ipv4 in
           routeLoop subnet dev ips
             (forwardVPNInputRules @
                [[''-d'', route, ''-o'', dev, ''-s'', subnet, ''-j'', ''ACCEPT'']],
              forwardVPNOutputRules @
                [[''-s'', route, ''-i'', dev, ''-d'', subnet, ''-m'', ''state'', ''--state'',
                  ''RELATED,ESTABLISHED'', ''-j'', ''ACCEPT'']])))"

fun vpnLoop :: "string \<Rightarrow> VPN list \<Rightarrow> command list \<times> command list
    \<Rightarrow> command list \<times> command list" where
  "vpnLoop subnet [] acc = acc"
| "vpnLoop subnet (vpn # vpns) acc =
     vpnLoop subnet vpns (routeLoop subnet (DeviceName vpn) (Routes vpn) acc)"

text \<open>Rules for filtering FORWARD from this tap device.\<close>

definition forwardInputRules :: "string \<Rightarrow> string \<Rightarrow> string \<Rightarrow> command list \<Rightarrow> command list" where
  "forwardInputRules ruleAction tapDevice subnet forwardVPNInputRules =
     prefixCommands [''iptables'', ''-w'', xtableLockWait, ruleAction, ''fwd_input_'' @ tapDevice]
       (forwardVPNInputRules @
        [[''-d'', ''10.0.0.0/8'', ''-j'', ''REJECT'', ''--reject-with'', ''icmp-net-unreachable''],
         [''-d'', ''172.16.0.0/12'', ''-j'', ''REJECT'', ''--reject-with'', ''icmp-net-unreachable''],
         [''-d'', ''169.254.0.0/16'', ''-j'', ''REJECT'', ''--reject-with'', ''icmp-net-unreachable''],
         [''-d'', ''192.168.0.0/16'', ''-j'', ''REJECT'', ''--reject-with'', ''icmp-net-unreachable''],
         [''-o'', ''eth0'', ''-s'', subnet, ''-j'', ''ACCEPT''],
         [''-o'', tapDevice, ''-s'', subnet, ''-j'', ''ACCEPT''],
         [''-j'', ''REJECT'', ''--reject-with'', ''icmp-net-prohibited'']])"

text \<open>Rules for filtering FORWARD to this tap device.\<close>

definition forwardOutputRules :: "string \<Rightarrow> string \<Rightarrow> string \<Rightarrow> command list \<Rightarrow> command list" where
  "forwardOutputRules ruleAction tapDevice subnet forwardVPNOutputRules =
     prefixCommands [''iptables'', ''-w'', xtableLockWait, ruleAction, ''fwd_output_'' @ tapDevice]
       (forwardVPNOutputRules @
        [[''-s'', ''10.0.0.0/8'', ''-j'', ''DROP''],
         [''-s'', ''172.16.0.0/12'', ''-j'', ''DROP''],
         [''-s'', ''169.254.0.0/16'', ''-j'', ''DROP''],
         [''-s'', ''192.168.0.0/16'', ''-j'', ''DROP''],
         [''-i'', ''eth0'', ''-d'', subnet, ''-m'', ''state'', ''--state'', ''RELATED,ESTABLISHED'',
          ''-j'', ''ACCEPT''],
         [''-i'', tapDevice, ''-s'', subnet, ''-j'', ''ACCEPT''],
         [''-j'', ''DROP'']])"

text \<open>
  The body of \<open>ipTableRules\<close> after its first two lines, as a function of the two locals
  \<open>subnet\<close> and \<open>gateway\<close> those lines bind.
\<close>

definition ipTableRulesBody :: "string \<Rightarrow> string \<Rightarrow> string \<Rightarrow> VPN list \<Rightarrow> bool \<Rightarrow> command list" where
  "ipTableRulesBody subnet gateway tapDevice vpns delete =
     (let ruleAction = (if delete then ''-D'' else ''-A'');
          chainAction = (if delete then ''-X'' else ''-N'');
          (forwardVPNInputRules, forwardVPNOutputRules) = vpnLoop subnet vpns ([], [])
      in if \<not> delete then
           natRules ruleAction subnet
           @ chains_cmds chainAction tapDevice
           @ rules ruleAction tapDevice
           @ inputRules ruleAction tapDevice subnet gateway
           @ outputRules ruleAction tapDevice subnet gateway
           @ forwardOutputRules ruleAction tapDevice subnet forwardVPNOutputRules
           @ forwardInputRules ruleAction tapDevice subnet forwardVPNInputRules
         else
           forwardInputRules ruleAction tapDevice subnet forwardVPNInputRules
           @ forwardOutputRules ruleAction tapDevice subnet forwardVPNOutputRules
           @ outputRules ruleAction tapDevice subnet gateway
           @ inputRules ruleAction tapDevice subnet gateway
           @ rules ruleAction tapDevice
           @ chains_cmds chainAction tapDevice
           @ natRules ruleAction subnet)"

definition ipTableRules :: "string \<Rightarrow> string \<Rightarrow> VPN list \<Rightarrow> bool \<Rightarrow> command list" where
  "ipTableRules tapDevice ipPrefix vpns delete =
     (let subnet = ipPrefix @ ''.0/24'';
          gateway = ipPrefix @ ''.1''
      in ipTableRulesBody subnet gateway tapDevice vpns delete)"

section \<open>Vocabulary for the properties\<close>

text \<open>\<open>adjacent a b xs\<close>: the token \<open>a\<close> occurs in \<open>xs\<close> immediately followed by \<open>b\<close>.\<close>

fun adjacent :: "'a \<Rightarrow> 'a \<Rightarrow> 'a list \<Rightarrow> bool" where
  "adjacent a b (x # y # rest) = ((x = a \<and> y = b) \<or> adjacent a b (y # rest))"
| "adjacent a b _ = False"

text \<open>
  The routes that generate rules: those whose \<open>To4\<close> is not nil, each rendered in dotted
  decimal, paired with the attachment name of the VPN they belong to, in input order.
\<close>

definition isIPv4 :: "IP \<Rightarrow> bool" where
  "isIPv4 ip = (To4 ip \<noteq> None)"

definition ipv4Routes :: "IP list \<Rightarrow> string list" where
  "ipv4Routes ips = map (\<lambda>ip. String4 (the (To4 ip))) (filter isIPv4 ips)"

definition vpnRoutes :: "VPN list \<Rightarrow> (string \<times> string) list" where
  "vpnRoutes vpns =
     concat (map (\<lambda>vpn. map (Pair (DeviceName vpn)) (ipv4Routes (Routes vpn))) vpns)"

definition ipv4RouteCount :: "VPN list \<Rightarrow> nat" where
  "ipv4RouteCount vpns = sum_list (map (\<lambda>vpn. length (filter isIPv4 (Routes vpn))) vpns)"

text \<open>The rule bodies the loop emits for one (attachment, route) pair.\<close>

definition vpnInputRule :: "string \<Rightarrow> string \<times> string \<Rightarrow> command" where
  "vpnInputRule subnet dr =
     [''-d'', snd dr, ''-o'', fst dr, ''-s'', subnet, ''-j'', ''ACCEPT'']"

definition vpnOutputRule :: "string \<Rightarrow> string \<times> string \<Rightarrow> command" where
  "vpnOutputRule subnet dr =
     [''-s'', snd dr, ''-i'', fst dr, ''-d'', subnet, ''-m'', ''state'', ''--state'',
      ''RELATED,ESTABLISHED'', ''-j'', ''ACCEPT'']"

text \<open>
  The seven groups of a rule set, listed in the order the specification names them: NAT,
  chain creation, jump wiring, inbound filter, outbound filter, forward-to-device,
  forward-from-device. Each group is the source's own list of that name.
\<close>

definition ruleGroups :: "string \<Rightarrow> string \<Rightarrow> VPN list \<Rightarrow> bool \<Rightarrow> command list list" where
  "ruleGroups tapDevice ipPrefix vpns delete =
     (let subnet = ipPrefix @ ''.0/24'';
          gateway = ipPrefix @ ''.1'';
          ruleAction = (if delete then ''-D'' else ''-A'');
          chainAction = (if delete then ''-X'' else ''-N'');
          (forwardVPNInputRules, forwardVPNOutputRules) = vpnLoop subnet vpns ([], [])
      in [natRules ruleAction subnet,
          chains_cmds chainAction tapDevice,
          rules ruleAction tapDevice,
          inputRules ruleAction tapDevice subnet gateway,
          outputRules ruleAction tapDevice subnet gateway,
          forwardOutputRules ruleAction tapDevice subnet forwardVPNOutputRules,
          forwardInputRules ruleAction tapDevice subnet forwardVPNInputRules])"

text \<open>
  The mirror of a list of groups, in the specification's words: the order of the groups
  reversed, and in every command the verb flipped (append \<open>-A\<close> to delete \<open>-D\<close>,
  create-chain \<open>-N\<close> to destroy-chain \<open>-X\<close>), every other token kept. The verb of a
  command is the token after the lock-wait argument, or after the table selector
  \<open>-t <table>\<close> when there is one.
\<close>

definition flipVerb :: "string \<Rightarrow> string" where
  "flipVerb v = (if v = ''-A'' then ''-D'' else if v = ''-N'' then ''-X'' else v)"

fun flipCommand :: "command \<Rightarrow> command" where
  "flipCommand (tool # w # wait # a # rest) =
     (if a = ''-t''
      then (case rest of
              table # v # body \<Rightarrow> tool # w # wait # a # table # flipVerb v # body
            | _ \<Rightarrow> tool # w # wait # a # rest)
      else tool # w # wait # flipVerb a # rest)"
| "flipCommand cmd = cmd"

definition mirror :: "command list list \<Rightarrow> command list" where
  "mirror groups = concat (rev (map (map flipCommand) groups))"

text \<open>
  The four chains of a device; the command that creates a chain; a command references a
  chain when it appends to it (\<open>-A c\<close>) or jumps to it (\<open>-j c\<close>).
\<close>

definition perDeviceChains :: "string \<Rightarrow> string list" where
  "perDeviceChains tapDevice =
     [''input_'' @ tapDevice, ''output_'' @ tapDevice,
      ''fwd_input_'' @ tapDevice, ''fwd_output_'' @ tapDevice]"

definition createsChain :: "command \<Rightarrow> string \<Rightarrow> bool" where
  "createsChain cmd c = (cmd = [''iptables'', ''-w'', xtableLockWait, ''-N'', c])"

definition referencesChain :: "command \<Rightarrow> string \<Rightarrow> bool" where
  "referencesChain cmd c = (adjacent ''-A'' c cmd \<or> adjacent ''-j'' c cmd)"

text \<open>
  Reading a command: its verb and the arguments after the verb (the verb follows the
  lock-wait argument, or the table selector \<open>-t <table>\<close> when there is one). A rule
  command with verb \<open>v\<close> on chain \<open>c\<close> has \<open>c\<close> as its first argument.
\<close>

fun verbAndArgs :: "command \<Rightarrow> (string \<times> string list) option" where
  "verbAndArgs (tool # w # wait # a # rest) =
     (if a = ''-t''
      then (case rest of table # v # args \<Rightarrow> Some (v, args) | _ \<Rightarrow> None)
      else Some (a, rest))"
| "verbAndArgs cmd = None"

definition isChainCreation :: "command \<Rightarrow> bool" where
  "isChainCreation cmd =
     (case verbAndArgs cmd of Some (v, args) \<Rightarrow> v = ''-N'' | None \<Rightarrow> False)"

definition ruleOn :: "string \<Rightarrow> string \<Rightarrow> command \<Rightarrow> bool" where
  "ruleOn verb chain cmd =
     (case verbAndArgs cmd of
        Some (v, c # body) \<Rightarrow> v = verb \<and> c = chain
      | _ \<Rightarrow> False)"

definition appendsTo :: "string \<Rightarrow> command \<Rightarrow> bool" where
  "appendsTo chain cmd = ruleOn ''-A'' chain cmd"

text \<open>A jump-wiring command appends a rule to one of the host's hooks.\<close>

definition isJumpWiring :: "command \<Rightarrow> bool" where
  "isJumpWiring cmd =
     (appendsTo ''INPUT'' cmd \<or> appendsTo ''OUTPUT'' cmd \<or> appendsTo ''FORWARD'' cmd)"

text \<open>
  A VPN connection with one IPv4 route, 10.1.2.3, and one IPv6 route, 2001:db8::1; and
  one whose attachment carries the name of a tap device.
\<close>

definition exampleVPN :: VPN where
  "exampleVPN = \<lparr>DeviceName = ''tun0'',
                  Routes = [[10, 1, 2, 3],
                            [0x20, 0x01, 0x0d, 0xb8, 0, 0, 0, 0, 0, 0, 0, 0, 0, 0, 0, 1]]\<rparr>"









section \<open>The loops in closed form\<close>

lemmas group_defs = natRules_def chains_cmds_def rules_def inputRules_def outputRules_def
  forwardOutputRules_def forwardInputRules_def

lemma prefixLoop_eq: "prefixLoop pre cmds rs = cmds @ map (\<lambda>rule. pre @ rule) rs"
  by (induction rs arbitrary: cmds) simp_all

lemma prefixCommands_map: "prefixCommands pre rs = map (\<lambda>rule. pre @ rule) rs"
  by (simp add: prefixCommands_def prefixLoop_eq)

lemma ipv4Routes_Nil: "ipv4Routes [] = []"
  by (simp add: ipv4Routes_def)

lemma ipv4Routes_Cons:
  "ipv4Routes (ip # ips) =
     (case To4 ip of None \<Rightarrow> ipv4Routes ips | Some ipv4 \<Rightarrow> String4 ipv4 # ipv4Routes ips)"
  by (simp add: ipv4Routes_def isIPv4_def split: option.split)

lemma routeLoop_eq:
  "routeLoop subnet dev ips (fin, fout) =
     (fin @ map (\<lambda>r. vpnInputRule subnet (dev, r)) (ipv4Routes ips),
      fout @ map (\<lambda>r. vpnOutputRule subnet (dev, r)) (ipv4Routes ips))"
  by (induction ips arbitrary: fin fout)
     (simp_all add: ipv4Routes_Nil ipv4Routes_Cons vpnInputRule_def vpnOutputRule_def Let_def
        split: option.split)

lemma vpnLoop_eq:
  "vpnLoop subnet vpns (fin, fout) =
     (fin @ map (vpnInputRule subnet) (vpnRoutes vpns),
      fout @ map (vpnOutputRule subnet) (vpnRoutes vpns))"
  by (induction vpns arbitrary: fin fout)
     (simp_all add: routeLoop_eq vpnRoutes_def comp_def)

lemma length_vpnRoutes: "length (vpnRoutes vpns) = ipv4RouteCount vpns"
  by (simp add: vpnRoutes_def ipv4RouteCount_def ipv4Routes_def length_concat comp_def)

lemma ipTableRulesBody_install:
  "ipTableRulesBody subnet gateway tapDevice vpns False =
     natRules ''-A'' subnet
     @ chains_cmds ''-N'' tapDevice
     @ rules ''-A'' tapDevice
     @ inputRules ''-A'' tapDevice subnet gateway
     @ outputRules ''-A'' tapDevice subnet gateway
     @ forwardOutputRules ''-A'' tapDevice subnet (map (vpnOutputRule subnet) (vpnRoutes vpns))
     @ forwardInputRules ''-A'' tapDevice subnet (map (vpnInputRule subnet) (vpnRoutes vpns))"
  by (simp add: ipTableRulesBody_def vpnLoop_eq Let_def)

lemma ipTableRulesBody_uninstall:
  "ipTableRulesBody subnet gateway tapDevice vpns True =
     forwardInputRules ''-D'' tapDevice subnet (map (vpnInputRule subnet) (vpnRoutes vpns))
     @ forwardOutputRules ''-D'' tapDevice subnet (map (vpnOutputRule subnet) (vpnRoutes vpns))
     @ outputRules ''-D'' tapDevice subnet gateway
     @ inputRules ''-D'' tapDevice subnet gateway
     @ rules ''-D'' tapDevice
     @ chains_cmds ''-X'' tapDevice
     @ natRules ''-D'' subnet"
  by (simp add: ipTableRulesBody_def vpnLoop_eq Let_def)

lemma length_groups:
  "length (natRules a subnet) = 1"
  "length (chains_cmds c tapDevice) = 4"
  "length (rules a tapDevice) = 4"
  "length (inputRules a tapDevice subnet gateway) = 7"
  "length (outputRules a tapDevice subnet gateway) = 5"
  "length (forwardOutputRules a tapDevice subnet vout) = 7 + length vout"
  "length (forwardInputRules a tapDevice subnet vin) = 7 + length vin"
  by (simp_all add: natRules_def chains_cmds_def rules_def inputRules_def outputRules_def
        forwardOutputRules_def forwardInputRules_def prefixCommands_map)

lemma ipTableRules_size:
  "length (ipTableRules tapDevice ipPrefix vpns delete) = 35 + 2 * ipv4RouteCount vpns"
  by (cases delete)
     (simp_all add: ipTableRules_def ipTableRulesBody_install ipTableRulesBody_uninstall
        length_groups length_vpnRoutes Let_def)

lemma ruleGroups_install:
  "ruleGroups tapDevice ipPrefix vpns False =
    (let subnet = ipPrefix @ ''.0/24''; gateway = ipPrefix @ ''.1'' in
     [natRules ''-A'' subnet,
      chains_cmds ''-N'' tapDevice,
      rules ''-A'' tapDevice,
      inputRules ''-A'' tapDevice subnet gateway,
      outputRules ''-A'' tapDevice subnet gateway,
      forwardOutputRules ''-A'' tapDevice subnet (map (vpnOutputRule subnet) (vpnRoutes vpns)),
      forwardInputRules ''-A'' tapDevice subnet (map (vpnInputRule subnet) (vpnRoutes vpns))])"
  by (simp add: ruleGroups_def vpnLoop_eq Let_def)

lemma install_concat_groups:
  "ipTableRules tapDevice ipPrefix vpns False = concat (ruleGroups tapDevice ipPrefix vpns False)"
  by (simp add: ipTableRules_def ipTableRulesBody_install ruleGroups_install Let_def)

section \<open>Size of a rule set\<close>

text \<open>
  C10. For every input and both modes the rule set has exactly 35 + 2r commands, where r
  is the number of routes, over all VPN connections, that have an IPv4 form
  (1 NAT + 4 chain + 4 jump + 7 inbound + 5 outbound + (7+r) forward-to-device
  + (7+r) forward-from-device); so the install and the uninstall rule set for the same
  inputs have the same length.
\<close>

theorem ipTableRules_length:
  "length (ipTableRules tapDevice ipPrefix vpns delete) = 35 + 2 * ipv4RouteCount vpns
   \<and> length (ipTableRules tapDevice ipPrefix vpns True)
       = length (ipTableRules tapDevice ipPrefix vpns False)
   \<and> map length (ruleGroups tapDevice ipPrefix vpns delete)
       = [1, 4, 4, 7, 5, 7 + ipv4RouteCount vpns, 7 + ipv4RouteCount vpns]"
proof -
  have grp: "map length (ruleGroups tapDevice ipPrefix vpns delete)
       = [1, 4, 4, 7, 5, 7 + ipv4RouteCount vpns, 7 + ipv4RouteCount vpns]"
    by (simp add: ruleGroups_def vpnLoop_eq length_groups length_vpnRoutes Let_def)
  show ?thesis
    using grp by (simp add: ipTableRules_size)
qed

section \<open>Uninstall mirrors install\<close>

lemma flip_groups:
  "map flipCommand (natRules ''-A'' subnet) = natRules ''-D'' subnet"
  "map flipCommand (chains_cmds ''-N'' tapDevice) = chains_cmds ''-X'' tapDevice"
  "map flipCommand (rules ''-A'' tapDevice) = rules ''-D'' tapDevice"
  "map flipCommand (inputRules ''-A'' tapDevice subnet gateway)
     = inputRules ''-D'' tapDevice subnet gateway"
  "map flipCommand (outputRules ''-A'' tapDevice subnet gateway)
     = outputRules ''-D'' tapDevice subnet gateway"
  "map flipCommand (forwardOutputRules ''-A'' tapDevice subnet vout)
     = forwardOutputRules ''-D'' tapDevice subnet vout"
  "map flipCommand (forwardInputRules ''-A'' tapDevice subnet vin)
     = forwardInputRules ''-D'' tapDevice subnet vin"
  by (simp_all add: natRules_def chains_cmds_def rules_def inputRules_def outputRules_def
        forwardOutputRules_def forwardInputRules_def prefixCommands_map flipVerb_def)

lemma length_mirror: "length (mirror gs) = length (concat gs)"
  by (simp add: mirror_def length_concat rev_map [symmetric] comp_def)

text \<open>
  C1. For every device, prefix and list of VPN connections, the install rule set is the
  seven groups in the specification's order, and the uninstall rule set is its mirror:
  the groups in exactly the reverse order, every \<open>-A\<close> replaced by \<open>-D\<close> and every
  \<open>-N\<close> by \<open>-X\<close>, all other tokens unchanged. The two rule sets have the same number
  of commands.
\<close>

theorem uninstall_mirrors_install:
  "ipTableRules tapDevice ipPrefix vpns False = concat (ruleGroups tapDevice ipPrefix vpns False)
   \<and> ipTableRules tapDevice ipPrefix vpns True = mirror (ruleGroups tapDevice ipPrefix vpns False)
   \<and> length (ipTableRules tapDevice ipPrefix vpns True)
       = length (ipTableRules tapDevice ipPrefix vpns False)"
proof -
  have unin: "ipTableRules tapDevice ipPrefix vpns True
      = mirror (ruleGroups tapDevice ipPrefix vpns False)"
    by (simp add: ipTableRules_def ipTableRulesBody_uninstall ruleGroups_install Let_def
          mirror_def flip_groups)
  with install_concat_groups [of tapDevice ipPrefix vpns] show ?thesis
    by (simp add: length_mirror)
qed

section \<open>Install order: a chain is created before it is referenced\<close>

lemma install_head:
  "\<exists>rest. ipTableRules tapDevice ipPrefix vpns False =
     [[''iptables'', ''-w'', xtableLockWait, ''-t'', ''nat'', ''-A'', ''POSTROUTING'', ''-o'', ''eth0'',
       ''-s'', ipPrefix @ ''.0/24'', ''-j'', ''MASQUERADE''],
      [''iptables'', ''-w'', xtableLockWait, ''-N'', ''input_'' @ tapDevice],
      [''iptables'', ''-w'', xtableLockWait, ''-N'', ''output_'' @ tapDevice],
      [''iptables'', ''-w'', xtableLockWait, ''-N'', ''fwd_input_'' @ tapDevice],
      [''iptables'', ''-w'', xtableLockWait, ''-N'', ''fwd_output_'' @ tapDevice]] @ rest"
  by (simp add: ipTableRules_def Let_def ipTableRulesBody_install natRules_def chains_cmds_def
        prefixCommands_map)

lemma head_no_reference:
  assumes "c \<in> set (perDeviceChains tapDevice)"
  shows "\<not> referencesChain [''iptables'', ''-w'', xtableLockWait, ''-t'', ''nat'', ''-A'',
            ''POSTROUTING'', ''-o'', ''eth0'', ''-s'', subnet, ''-j'', ''MASQUERADE''] c"
    and "\<not> referencesChain [''iptables'', ''-w'', xtableLockWait, ''-N'', x] c"
  using assms by (auto simp: referencesChain_def perDeviceChains_def xtableLockWait_def)

text \<open>
  C4. For every input with mode install the rule set is the groups in the order NAT,
  chain creation, jump wiring, inbound filter, outbound filter, forward-to-device,
  forward-from-device; and every command that references one of the device's chains, as
  append target or as jump target, comes after the command that creates that chain.
\<close>

theorem install_creates_before_reference:
  "ipTableRules tapDevice ipPrefix vpns False = concat (ruleGroups tapDevice ipPrefix vpns False)
   \<and> (\<forall>i c. i < length (ipTableRules tapDevice ipPrefix vpns False)
          \<longrightarrow> c \<in> set (perDeviceChains tapDevice)
          \<longrightarrow> referencesChain (ipTableRules tapDevice ipPrefix vpns False ! i) c
          \<longrightarrow> (\<exists>j<i. createsChain (ipTableRules tapDevice ipPrefix vpns False ! j) c))"
proof (intro conjI allI impI)
  show "ipTableRules tapDevice ipPrefix vpns False
      = concat (ruleGroups tapDevice ipPrefix vpns False)"
    by (rule install_concat_groups)
next
  fix i c
  let ?cmds = "ipTableRules tapDevice ipPrefix vpns False"
  assume c: "c \<in> set (perDeviceChains tapDevice)" and ref: "referencesChain (?cmds ! i) c"
  obtain rest where cmds: "?cmds =
     [[''iptables'', ''-w'', xtableLockWait, ''-t'', ''nat'', ''-A'', ''POSTROUTING'', ''-o'', ''eth0'',
       ''-s'', ipPrefix @ ''.0/24'', ''-j'', ''MASQUERADE''],
      [''iptables'', ''-w'', xtableLockWait, ''-N'', ''input_'' @ tapDevice],
      [''iptables'', ''-w'', xtableLockWait, ''-N'', ''output_'' @ tapDevice],
      [''iptables'', ''-w'', xtableLockWait, ''-N'', ''fwd_input_'' @ tapDevice],
      [''iptables'', ''-w'', xtableLockWait, ''-N'', ''fwd_output_'' @ tapDevice]] @ rest"
    using install_head by blast
  have "createsChain (?cmds ! 1) c \<or> createsChain (?cmds ! 2) c
      \<or> createsChain (?cmds ! 3) c \<or> createsChain (?cmds ! 4) c"
    using c unfolding cmds by (auto simp: perDeviceChains_def createsChain_def)
  moreover have "(1::nat) < 5" "(2::nat) < 5" "(3::nat) < 5" "(4::nat) < 5"
    by simp_all
  ultimately obtain j where created: "j < 5" "createsChain (?cmds ! j) c"
    by blast
  have "5 \<le> i"
  proof (rule ccontr)
    assume "\<not> 5 \<le> i"
    then have "i \<in> {0, 1, 2, 3, 4}" by auto
    then have "\<not> referencesChain (?cmds ! i) c"
      unfolding cmds using head_no_reference [OF c] by auto
    with ref show False by simp
  qed
  with created have "j < i" by simp
  with created show "\<exists>j<i. createsChain (?cmds ! j) c"
    by blast
qed

theorem install_creates_before_reference_witness:
  "referencesChain (ipTableRules ''tap3'' ''192.168.50'' [] False ! 5) ''input_tap3''
   \<and> (\<exists>j<5. createsChain (ipTableRules ''tap3'' ''192.168.50'' [] False ! j) ''input_tap3'')"
proof -
  let ?cmds = "ipTableRules ''tap3'' ''192.168.50'' [] False"
  have len: "5 < length ?cmds"
    by (simp add: ipTableRules_size)
  have c: "''input_tap3'' \<in> set (perDeviceChains ''tap3'')"
    by (simp add: perDeviceChains_def)
  have ref: "referencesChain (?cmds ! 5) ''input_tap3''"
    by (simp add: ipTableRules_def Let_def ipTableRulesBody_install natRules_def chains_cmds_def
          rules_def prefixCommands_map referencesChain_def)
  from install_creates_before_reference [of "''tap3''" "''192.168.50''" "[]"] len c ref
  show ?thesis by blast
qed

section \<open>The lock-wait argument\<close>

lemma lock_wait_prefix:
  assumes "cmd \<in> set (prefixCommands (tool # ''-w'' # wait # pre) rs)"
  shows "adjacent ''-w'' wait cmd \<and> take 3 cmd = [tool, ''-w'', wait]"
  using assms by (auto simp: prefixCommands_map)

text \<open>
  C8. For every input and both modes, every command of the rule set carries the lock-wait
  argument: the token \<open>-w\<close> immediately followed by the fixed wait value; it is the
  second and third token of every command, after the tool name.
\<close>

theorem lock_wait_on_every_command:
  "\<forall>cmd \<in> set (ipTableRules tapDevice ipPrefix vpns delete).
      adjacent ''-w'' xtableLockWait cmd \<and> take 3 cmd = [''iptables'', ''-w'', xtableLockWait]"
proof
  fix cmd
  assume mem: "cmd \<in> set (ipTableRules tapDevice ipPrefix vpns delete)"
  from mem obtain pre rs
    where "cmd \<in> set (prefixCommands (''iptables'' # ''-w'' # xtableLockWait # pre) rs)"
    by (cases delete)
       (auto simp: ipTableRules_def Let_def ipTableRulesBody_install ipTableRulesBody_uninstall
          natRules_def chains_cmds_def rules_def inputRules_def outputRules_def
          forwardOutputRules_def forwardInputRules_def)
  then show "adjacent ''-w'' xtableLockWait cmd
      \<and> take 3 cmd = [''iptables'', ''-w'', xtableLockWait]"
    by (rule lock_wait_prefix)
qed

theorem lock_wait_on_every_command_witness:
  "[''iptables'', ''-w'', ''3'', ''-X'', ''input_tap3'']
     \<in> set (ipTableRules ''tap3'' ''192.168.50'' [] True)
   \<and> adjacent ''-w'' xtableLockWait [''iptables'', ''-w'', ''3'', ''-X'', ''input_tap3'']"
proof -
  have mem: "[''iptables'', ''-w'', ''3'', ''-X'', ''input_tap3'']
      \<in> set (ipTableRules ''tap3'' ''192.168.50'' [] True)"
    by (simp add: ipTableRules_def Let_def ipTableRulesBody_uninstall chains_cmds_def
          prefixCommands_map xtableLockWait_def)
  with lock_wait_on_every_command [of "''tap3''" "''192.168.50''" "[]" True] show ?thesis
    by blast
qed

section \<open>The scenario: tap3, 192.168.50, no VPN, install\<close>

lemma tap3_install_value:
  "ipTableRules ''tap3'' ''192.168.50'' [] False =
     [[''iptables'', ''-w'', ''3'', ''-t'', ''nat'', ''-A'', ''POSTROUTING'', ''-o'', ''eth0'',
       ''-s'', ''192.168.50.0/24'', ''-j'', ''MASQUERADE''],
      [''iptables'', ''-w'', ''3'', ''-N'', ''input_tap3''],
      [''iptables'', ''-w'', ''3'', ''-N'', ''output_tap3''],
      [''iptables'', ''-w'', ''3'', ''-N'', ''fwd_input_tap3''],
      [''iptables'', ''-w'', ''3'', ''-N'', ''fwd_output_tap3''],
      [''iptables'', ''-w'', ''3'', ''-A'', ''INPUT'', ''-i'', ''tap3'', ''-j'', ''input_tap3''],
      [''iptables'', ''-w'', ''3'', ''-A'', ''OUTPUT'', ''-o'', ''tap3'', ''-j'',
       ''output_tap3''],
      [''iptables'', ''-w'', ''3'', ''-A'', ''FORWARD'', ''-i'', ''tap3'', ''-j'',
       ''fwd_input_tap3''],
      [''iptables'', ''-w'', ''3'', ''-A'', ''FORWARD'', ''-o'', ''tap3'', ''-j'',
       ''fwd_output_tap3''],
      [''iptables'', ''-w'', ''3'', ''-A'', ''input_tap3'', ''-p'', ''tcp'', ''-s'',
       ''192.168.50.0/24'', ''-d'', ''169.254.169.254'', ''-m'', ''tcp'', ''--dport'', ''80'',
       ''-m'', ''state'', ''--state'', ''NEW,ESTABLISHED'', ''-j'', ''ACCEPT''],
      [''iptables'', ''-w'', ''3'', ''-A'', ''input_tap3'', ''-p'', ''tcp'', ''-s'',
       ''192.168.50.0/24'', ''-d'', ''192.168.50.1'', ''-m'', ''tcp'', ''--dport'', ''53'',
       ''-m'', ''state'', ''--state'', ''NEW,ESTABLISHED'', ''-j'', ''ACCEPT''],
      [''iptables'', ''-w'', ''3'', ''-A'', ''input_tap3'', ''-p'', ''udp'', ''-s'',
       ''192.168.50.0/24'', ''-d'', ''192.168.50.1'', ''-m'', ''udp'', ''--dport'', ''53'',
       ''-m'', ''state'', ''--state'', ''NEW,ESTABLISHED'', ''-j'', ''ACCEPT''],
      [''iptables'', ''-w'', ''3'', ''-A'', ''input_tap3'', ''-s'', ''0.0.0.0'', ''-d'',
       ''255.255.255.255'', ''-p'', ''udp'', ''-m'', ''udp'', ''--sport'', ''68'', ''--dport'',
       ''67'', ''-j'', ''ACCEPT''],
      [''iptables'', ''-w'', ''3'', ''-A'', ''input_tap3'', ''-s'', ''192.168.50.0/24'',
       ''-d'', ''192.168.50.1'', ''-p'', ''udp'', ''-m'', ''udp'', ''--sport'', ''68'',
       ''--dport'', ''67'', ''-j'', ''ACCEPT''],
      [''iptables'', ''-w'', ''3'', ''-A'', ''input_tap3'', ''-s'', ''192.168.50.0/24'',
       ''-d'', ''169.254.169.254'', ''-j'', ''REJECT'', ''--reject-with'',
       ''icmp-port-unreachable''],
      [''iptables'', ''-w'', ''3'', ''-A'', ''input_tap3'', ''-j'', ''REJECT'',
       ''--reject-with'', ''icmp-host-unreachable''],
      [''iptables'', ''-w'', ''3'', ''-A'', ''output_tap3'', ''-p'', ''tcp'', ''-s'',
       ''169.254.169.254'', ''-d'', ''192.168.50.0/24'', ''-m'', ''tcp'', ''--sport'', ''80'',
       ''-m'', ''state'', ''--state'', ''ESTABLISHED'', ''-j'', ''ACCEPT''],
      [''iptables'', ''-w'', ''3'', ''-A'', ''output_tap3'', ''-p'', ''udp'', ''-s'',
       ''192.168.50.1'', ''-d'', ''192.168.50.0/24'', ''-m'', ''udp'', ''--sport'', ''53'',
       ''-m'', ''state'', ''--state'', ''ESTABLISHED'', ''-j'', ''ACCEPT''],
      [''iptables'', ''-w'', ''3'', ''-A'', ''output_tap3'', ''-p'', ''tcp'', ''-s'',
       ''192.168.50.1'', ''-d'', ''192.168.50.0/24'', ''-m'', ''tcp'', ''--sport'', ''53'',
       ''-m'', ''state'', ''--state'', ''ESTABLISHED'', ''-j'', ''ACCEPT''],
      [''iptables'', ''-w'', ''3'', ''-A'', ''output_tap3'', ''-p'', ''udp'', ''-s'',
       ''192.168.50.1'', ''-m'', ''udp'', ''--sport'', ''67'', ''--dport'', ''68'', ''-j'',
       ''ACCEPT''],
      [''iptables'', ''-w'', ''3'', ''-A'', ''output_tap3'', ''-j'', ''REJECT'',
       ''--reject-with'', ''icmp-net-prohibited''],
      [''iptables'', ''-w'', ''3'', ''-A'', ''fwd_output_tap3'', ''-s'', ''10.0.0.0/8'',
       ''-j'', ''DROP''],
      [''iptables'', ''-w'', ''3'', ''-A'', ''fwd_output_tap3'', ''-s'', ''172.16.0.0/12'',
       ''-j'', ''DROP''],
      [''iptables'', ''-w'', ''3'', ''-A'', ''fwd_output_tap3'', ''-s'', ''169.254.0.0/16'',
       ''-j'', ''DROP''],
      [''iptables'', ''-w'', ''3'', ''-A'', ''fwd_output_tap3'', ''-s'', ''192.168.0.0/16'',
       ''-j'', ''DROP''],
      [''iptables'', ''-w'', ''3'', ''-A'', ''fwd_output_tap3'', ''-i'', ''eth0'', ''-d'',
       ''192.168.50.0/24'', ''-m'', ''state'', ''--state'', ''RELATED,ESTABLISHED'', ''-j'',
       ''ACCEPT''],
      [''iptables'', ''-w'', ''3'', ''-A'', ''fwd_output_tap3'', ''-i'', ''tap3'', ''-s'',
       ''192.168.50.0/24'', ''-j'', ''ACCEPT''],
      [''iptables'', ''-w'', ''3'', ''-A'', ''fwd_output_tap3'', ''-j'', ''DROP''],
      [''iptables'', ''-w'', ''3'', ''-A'', ''fwd_input_tap3'', ''-d'', ''10.0.0.0/8'', ''-j'',
       ''REJECT'', ''--reject-with'', ''icmp-net-unreachable''],
      [''iptables'', ''-w'', ''3'', ''-A'', ''fwd_input_tap3'', ''-d'', ''172.16.0.0/12'',
       ''-j'', ''REJECT'', ''--reject-with'', ''icmp-net-unreachable''],
      [''iptables'', ''-w'', ''3'', ''-A'', ''fwd_input_tap3'', ''-d'', ''169.254.0.0/16'',
       ''-j'', ''REJECT'', ''--reject-with'', ''icmp-net-unreachable''],
      [''iptables'', ''-w'', ''3'', ''-A'', ''fwd_input_tap3'', ''-d'', ''192.168.0.0/16'',
       ''-j'', ''REJECT'', ''--reject-with'', ''icmp-net-unreachable''],
      [''iptables'', ''-w'', ''3'', ''-A'', ''fwd_input_tap3'', ''-o'', ''eth0'', ''-s'',
       ''192.168.50.0/24'', ''-j'', ''ACCEPT''],
      [''iptables'', ''-w'', ''3'', ''-A'', ''fwd_input_tap3'', ''-o'', ''tap3'', ''-s'',
       ''192.168.50.0/24'', ''-j'', ''ACCEPT''],
      [''iptables'', ''-w'', ''3'', ''-A'', ''fwd_input_tap3'', ''-j'', ''REJECT'',
       ''--reject-with'', ''icmp-net-prohibited'']]"
  by (simp add: ipTableRules_def Let_def ipTableRulesBody_install group_defs prefixCommands_map
        vpnRoutes_def xtableLockWait_def metaDataIP_def)

text \<open>
  C3. For device tap3, prefix 192.168.50, no VPN connection and mode install, the rule
  set begins with the NAT command, which has source 192.168.50.0/24, the uplink interface
  eth0 and the action MASQUERADE; it has exactly 4 chain-creation commands and exactly 4
  jump-wiring commands; its inbound-filter group (the rules appended to input_tap3) has
  exactly 7 commands and ends in the host-unreachable reject; its outbound-filter group
  (the rules appended to output_tap3) has exactly 5 commands and ends in the
  network-prohibited reject.
\<close>

theorem scenario_tap3_install:
  "hd (ipTableRules ''tap3'' ''192.168.50'' [] False)
     = [''iptables'', ''-w'', ''3'', ''-t'', ''nat'', ''-A'', ''POSTROUTING'', ''-o'', ''eth0'',
        ''-s'', ''192.168.50.0/24'', ''-j'', ''MASQUERADE'']
   \<and> length (filter isChainCreation (ipTableRules ''tap3'' ''192.168.50'' [] False)) = 4
   \<and> length (filter isJumpWiring (ipTableRules ''tap3'' ''192.168.50'' [] False)) = 4
   \<and> length (filter (appendsTo ''input_tap3'') (ipTableRules ''tap3'' ''192.168.50'' [] False)) = 7
   \<and> last (filter (appendsTo ''input_tap3'') (ipTableRules ''tap3'' ''192.168.50'' [] False))
       = [''iptables'', ''-w'', ''3'', ''-A'', ''input_tap3'', ''-j'', ''REJECT'',
          ''--reject-with'', ''icmp-host-unreachable'']
   \<and> length (filter (appendsTo ''output_tap3'') (ipTableRules ''tap3'' ''192.168.50'' [] False)) = 5
   \<and> last (filter (appendsTo ''output_tap3'') (ipTableRules ''tap3'' ''192.168.50'' [] False))
       = [''iptables'', ''-w'', ''3'', ''-A'', ''output_tap3'', ''-j'', ''REJECT'',
          ''--reject-with'', ''icmp-net-prohibited'']"
  by (simp add: tap3_install_value appendsTo_def ruleOn_def isChainCreation_def isJumpWiring_def)

text \<open>
  C2, as the code has it. For the same input the forward-to-device group (the rules
  appended to fwd_output_tap3) has exactly 7 commands, the last of which is the
  unconditional drop, and the forward-from-device group (the rules appended to
  fwd_input_tap3) has exactly 7 commands, the last of which is the network-prohibited
  reject: four rules for the private ranges, the uplink rule, the device-to-device rule
  and the final rule.
\<close>

theorem scenario_forward_groups:
  "length (filter (appendsTo ''fwd_output_tap3'') (ipTableRules ''tap3'' ''192.168.50'' [] False)) = 7
   \<and> last (filter (appendsTo ''fwd_output_tap3'') (ipTableRules ''tap3'' ''192.168.50'' [] False))
       = [''iptables'', ''-w'', ''3'', ''-A'', ''fwd_output_tap3'', ''-j'', ''DROP'']
   \<and> length (filter (appendsTo ''fwd_input_tap3'') (ipTableRules ''tap3'' ''192.168.50'' [] False)) = 7
   \<and> last (filter (appendsTo ''fwd_input_tap3'') (ipTableRules ''tap3'' ''192.168.50'' [] False))
       = [''iptables'', ''-w'', ''3'', ''-A'', ''fwd_input_tap3'', ''-j'', ''REJECT'',
          ''--reject-with'', ''icmp-net-prohibited'']"
  by (simp add: tap3_install_value appendsTo_def ruleOn_def)

text \<open>C2 as stated, with 6 commands in each forward group, does not hold of this input.\<close>

theorem scenario_forward_groups_not_six:
  "\<not> (length (filter (appendsTo ''fwd_output_tap3'')
           (ipTableRules ''tap3'' ''192.168.50'' [] False)) = 6
      \<and> last (filter (appendsTo ''fwd_output_tap3'') (ipTableRules ''tap3'' ''192.168.50'' [] False))
          = [''iptables'', ''-w'', ''3'', ''-A'', ''fwd_output_tap3'', ''-j'', ''DROP'']
      \<and> length (filter (appendsTo ''fwd_input_tap3'')
           (ipTableRules ''tap3'' ''192.168.50'' [] False)) = 6
      \<and> last (filter (appendsTo ''fwd_input_tap3'') (ipTableRules ''tap3'' ''192.168.50'' [] False))
          = [''iptables'', ''-w'', ''3'', ''-A'', ''fwd_input_tap3'', ''-j'', ''REJECT'',
             ''--reject-with'', ''icmp-net-prohibited''])"
  by (simp add: tap3_install_value appendsTo_def ruleOn_def)

section \<open>Subnet and gateway are derived from the prefix\<close>

lemma subnet_dependence_groups:
  "list_all2 (\<lambda>c c'. c = c' \<or> s \<in> set c) (natRules a s) (natRules a s')"
  "list_all2 (\<lambda>c c'. c = c' \<or> s \<in> set c) (chains_cmds ca d) (chains_cmds ca d)"
  "list_all2 (\<lambda>c c'. c = c' \<or> s \<in> set c) (rules a d) (rules a d)"
  "list_all2 (\<lambda>c c'. c = c' \<or> s \<in> set c) (inputRules a d s g) (inputRules a d s' g)"
  "list_all2 (\<lambda>c c'. c = c' \<or> s \<in> set c) (outputRules a d s g) (outputRules a d s' g)"
  "list_all2 (\<lambda>c c'. c = c' \<or> s \<in> set c)
     (forwardOutputRules a d s (map (vpnOutputRule s) rs))
     (forwardOutputRules a d s' (map (vpnOutputRule s') rs))"
  "list_all2 (\<lambda>c c'. c = c' \<or> s \<in> set c)
     (forwardInputRules a d s (map (vpnInputRule s) rs))
     (forwardInputRules a d s' (map (vpnInputRule s') rs))"
  by (simp_all add: group_defs prefixCommands_map list_all2_append list_all2_map1
        list_all2_map2 list_all2_same vpnInputRule_def vpnOutputRule_def)

lemma subnet_dependence:
  "list_all2 (\<lambda>c c'. c = c' \<or> s \<in> set c)
     (ipTableRulesBody s g d v m) (ipTableRulesBody s' g d v m)"
  by (cases m)
     (simp_all add: ipTableRulesBody_install ipTableRulesBody_uninstall
        subnet_dependence_groups list_all2_appendI)

lemma gateway_dependence_groups:
  "list_all2 (\<lambda>c c'. c = c' \<or> g \<in> set c) (natRules a s) (natRules a s)"
  "list_all2 (\<lambda>c c'. c = c' \<or> g \<in> set c) (chains_cmds ca d) (chains_cmds ca d)"
  "list_all2 (\<lambda>c c'. c = c' \<or> g \<in> set c) (rules a d) (rules a d)"
  "list_all2 (\<lambda>c c'. c = c' \<or> g \<in> set c) (inputRules a d s g) (inputRules a d s g')"
  "list_all2 (\<lambda>c c'. c = c' \<or> g \<in> set c) (outputRules a d s g) (outputRules a d s g')"
  "list_all2 (\<lambda>c c'. c = c' \<or> g \<in> set c)
     (forwardOutputRules a d s vout) (forwardOutputRules a d s vout)"
  "list_all2 (\<lambda>c c'. c = c' \<or> g \<in> set c)
     (forwardInputRules a d s vin) (forwardInputRules a d s vin)"
  by (simp_all add: list_all2_same) (simp_all add: group_defs prefixCommands_map)

lemma gateway_dependence:
  "list_all2 (\<lambda>c c'. c = c' \<or> g \<in> set c)
     (ipTableRulesBody s g d v m) (ipTableRulesBody s g' d v m)"
  by (cases m)
     (simp_all add: ipTableRulesBody_install ipTableRulesBody_uninstall
        gateway_dependence_groups list_all2_appendI)

text \<open>
  C5. For every prefix string, with no validation, the rules are built with the subnet
  \<open>prefix + ".0/24"\<close> and the gateway \<open>prefix + ".1"\<close>. A command refers to the subnet
  when it changes with the value of the local \<open>subnet\<close>, and to the gateway when it
  changes with the value of the local \<open>gateway\<close>: every command that refers to the
  subnet has the token \<open>prefix + ".0/24"\<close>, and every command that refers to the gateway
  has the token \<open>prefix + ".1"\<close>. For the prefix 10.138.5 these are the literal tokens
  10.138.5.0/24 and 10.138.5.1.
\<close>

theorem subnet_and_gateway_from_prefix:
  "ipTableRules tapDevice ipPrefix vpns delete
     = ipTableRulesBody (ipPrefix @ ''.0/24'') (ipPrefix @ ''.1'') tapDevice vpns delete
   \<and> (\<forall>i subnet'. i < length (ipTableRules tapDevice ipPrefix vpns delete)
         \<longrightarrow> ipTableRulesBody subnet' (ipPrefix @ ''.1'') tapDevice vpns delete ! i
               \<noteq> ipTableRules tapDevice ipPrefix vpns delete ! i
         \<longrightarrow> ipPrefix @ ''.0/24'' \<in> set (ipTableRules tapDevice ipPrefix vpns delete ! i))
   \<and> (\<forall>i gateway'. i < length (ipTableRules tapDevice ipPrefix vpns delete)
         \<longrightarrow> ipTableRulesBody (ipPrefix @ ''.0/24'') gateway' tapDevice vpns delete ! i
               \<noteq> ipTableRules tapDevice ipPrefix vpns delete ! i
         \<longrightarrow> ipPrefix @ ''.1'' \<in> set (ipTableRules tapDevice ipPrefix vpns delete ! i))"
proof (intro conjI allI impI)
  show "ipTableRules tapDevice ipPrefix vpns delete
     = ipTableRulesBody (ipPrefix @ ''.0/24'') (ipPrefix @ ''.1'') tapDevice vpns delete"
    by (simp add: ipTableRules_def)
next
  fix i subnet'
  assume "i < length (ipTableRules tapDevice ipPrefix vpns delete)"
    and "ipTableRulesBody subnet' (ipPrefix @ ''.1'') tapDevice vpns delete ! i
          \<noteq> ipTableRules tapDevice ipPrefix vpns delete ! i"
  with list_all2_nthD [OF subnet_dependence
      [of "ipPrefix @ ''.0/24''" "ipPrefix @ ''.1''" tapDevice vpns delete subnet'], of i]
  show "ipPrefix @ ''.0/24'' \<in> set (ipTableRules tapDevice ipPrefix vpns delete ! i)"
    by (auto simp: ipTableRules_def)
next
  fix i gateway'
  assume "i < length (ipTableRules tapDevice ipPrefix vpns delete)"
    and "ipTableRulesBody (ipPrefix @ ''.0/24'') gateway' tapDevice vpns delete ! i
          \<noteq> ipTableRules tapDevice ipPrefix vpns delete ! i"
  with list_all2_nthD [OF gateway_dependence
      [of "ipPrefix @ ''.1''" "ipPrefix @ ''.0/24''" tapDevice vpns delete gateway'], of i]
  show "ipPrefix @ ''.1'' \<in> set (ipTableRules tapDevice ipPrefix vpns delete ! i)"
    by (auto simp: ipTableRules_def)
qed

theorem subnet_and_gateway_from_prefix_witness:
  "''10.138.5.0/24'' \<in> set (ipTableRules ''tap3'' ''10.138.5'' [] False ! 0)
   \<and> ''10.138.5.1'' \<in> set (ipTableRules ''tap3'' ''10.138.5'' [] False ! 10)"
proof -
  let ?cmds = "ipTableRules ''tap3'' ''10.138.5'' [] False"
  have len: "0 < length ?cmds" "10 < length ?cmds"
    by (simp_all add: ipTableRules_size)
  have s: "ipTableRulesBody ''x'' (''10.138.5'' @ ''.1'') ''tap3'' [] False ! 0 \<noteq> ?cmds ! 0"
    by (simp add: ipTableRules_def Let_def ipTableRulesBody_install group_defs
          prefixCommands_map)
  have g: "ipTableRulesBody (''10.138.5'' @ ''.0/24'') ''x'' ''tap3'' [] False ! 10 \<noteq> ?cmds ! 10"
    by (simp add: ipTableRules_def Let_def ipTableRulesBody_install group_defs
          prefixCommands_map)
  from subnet_and_gateway_from_prefix [of "''tap3''" "''10.138.5''" "[]" False] len s g
  have "''10.138.5'' @ ''.0/24'' \<in> set (?cmds ! 0) \<and> ''10.138.5'' @ ''.1'' \<in> set (?cmds ! 10)"
    by blast
  then show ?thesis by simp
qed

section \<open>VPN routes\<close>

lemma filter_forward_input:
  "filter (ruleOn (if delete then ''-D'' else ''-A'') (''fwd_input_'' @ tapDevice))
       (ipTableRulesBody subnet gateway tapDevice vpns delete)
     = forwardInputRules (if delete then ''-D'' else ''-A'') tapDevice subnet
         (map (vpnInputRule subnet) (vpnRoutes vpns))"
  by (cases delete)
     (simp_all add: ipTableRulesBody_install ipTableRulesBody_uninstall group_defs
        prefixCommands_map ruleOn_def vpnInputRule_def vpnOutputRule_def comp_def filter_map)

lemma filter_forward_output:
  "filter (ruleOn (if delete then ''-D'' else ''-A'') (''fwd_output_'' @ tapDevice))
       (ipTableRulesBody subnet gateway tapDevice vpns delete)
     = forwardOutputRules (if delete then ''-D'' else ''-A'') tapDevice subnet
         (map (vpnOutputRule subnet) (vpnRoutes vpns))"
  by (cases delete)
     (simp_all add: ipTableRulesBody_install ipTableRulesBody_uninstall group_defs
        prefixCommands_map ruleOn_def vpnInputRule_def vpnOutputRule_def comp_def filter_map)

lemma vpnRoutes_Nil: "vpnRoutes [] = []"
  by (simp add: vpnRoutes_def)

lemma exampleVPN_routes: "vpnRoutes [exampleVPN] = [(''tun0'', ''10.1.2.3'')]"
  by (simp add: vpnRoutes_def exampleVPN_def ipv4Routes_def isIPv4_def To4_def ubtoa_def
        digit_def)

lemma exampleVPN_rules:
  "filter (\<lambda>cmd. ''tun0'' \<in> set cmd) (ipTableRules ''tap3'' ''192.168.50'' [exampleVPN] False)
     = [[''iptables'', ''-w'', ''3'', ''-A'', ''fwd_output_tap3'', ''-s'', ''10.1.2.3'', ''-i'',
         ''tun0'', ''-d'', ''192.168.50.0/24'', ''-m'', ''state'', ''--state'',
         ''RELATED,ESTABLISHED'', ''-j'', ''ACCEPT''],
        [''iptables'', ''-w'', ''3'', ''-A'', ''fwd_input_tap3'', ''-d'', ''10.1.2.3'', ''-o'',
         ''tun0'', ''-s'', ''192.168.50.0/24'', ''-j'', ''ACCEPT'']]"
  by (simp add: ipTableRules_def Let_def ipTableRulesBody_install exampleVPN_routes group_defs
        prefixCommands_map vpnInputRule_def vpnOutputRule_def xtableLockWait_def
        metaDataIP_def)

text \<open>
  C6. Only the routes with an IPv4 form generate forwarding rules. The loop leaves one
  forward-from-device rule body and one forward-to-device rule body for each such route
  of each VPN connection, in input order, and nothing for any other route: the number
  of bodies is the number of IPv4 routes. In the rule set, for both modes, the
  forward-from-device group is these rules followed by the group of the same input
  without VPN connections, and likewise the forward-to-device group. In particular the
  connection tun0 with the routes 10.1.2.3 and 2001:db8::1 yields exactly one
  forward-to-device rule and one forward-from-device rule, both for 10.1.2.3.
\<close>

theorem vpn_routes_one_rule_each:
  "vpnLoop subnet vpns ([], [])
     = (map (vpnInputRule subnet) (vpnRoutes vpns), map (vpnOutputRule subnet) (vpnRoutes vpns))
   \<and> length (vpnRoutes vpns) = ipv4RouteCount vpns
   \<and> filter (ruleOn (if delete then ''-D'' else ''-A'') (''fwd_input_'' @ tapDevice))
        (ipTableRules tapDevice ipPrefix vpns delete)
      = map (\<lambda>dr. [''iptables'', ''-w'', xtableLockWait, if delete then ''-D'' else ''-A'',
                    ''fwd_input_'' @ tapDevice] @ vpnInputRule (ipPrefix @ ''.0/24'') dr)
          (vpnRoutes vpns)
        @ filter (ruleOn (if delete then ''-D'' else ''-A'') (''fwd_input_'' @ tapDevice))
            (ipTableRules tapDevice ipPrefix [] delete)
   \<and> filter (ruleOn (if delete then ''-D'' else ''-A'') (''fwd_output_'' @ tapDevice))
        (ipTableRules tapDevice ipPrefix vpns delete)
      = map (\<lambda>dr. [''iptables'', ''-w'', xtableLockWait, if delete then ''-D'' else ''-A'',
                    ''fwd_output_'' @ tapDevice] @ vpnOutputRule (ipPrefix @ ''.0/24'') dr)
          (vpnRoutes vpns)
        @ filter (ruleOn (if delete then ''-D'' else ''-A'') (''fwd_output_'' @ tapDevice))
            (ipTableRules tapDevice ipPrefix [] delete)
   \<and> isIPv4 [10, 1, 2, 3]
   \<and> \<not> isIPv4 [0x20, 0x01, 0x0d, 0xb8, 0, 0, 0, 0, 0, 0, 0, 0, 0, 0, 0, 1]
   \<and> filter (\<lambda>cmd. ''tun0'' \<in> set cmd) (ipTableRules ''tap3'' ''192.168.50'' [exampleVPN] False)
      = [[''iptables'', ''-w'', ''3'', ''-A'', ''fwd_output_tap3'', ''-s'', ''10.1.2.3'', ''-i'',
          ''tun0'', ''-d'', ''192.168.50.0/24'', ''-m'', ''state'', ''--state'',
          ''RELATED,ESTABLISHED'', ''-j'', ''ACCEPT''],
         [''iptables'', ''-w'', ''3'', ''-A'', ''fwd_input_tap3'', ''-d'', ''10.1.2.3'', ''-o'',
          ''tun0'', ''-s'', ''192.168.50.0/24'', ''-j'', ''ACCEPT'']]"
proof -
  have "filter (ruleOn (if delete then ''-D'' else ''-A'') (''fwd_input_'' @ tapDevice))
        (ipTableRules tapDevice ipPrefix vpns delete)
      = map (\<lambda>dr. [''iptables'', ''-w'', xtableLockWait, if delete then ''-D'' else ''-A'',
                    ''fwd_input_'' @ tapDevice] @ vpnInputRule (ipPrefix @ ''.0/24'') dr)
          (vpnRoutes vpns)
        @ filter (ruleOn (if delete then ''-D'' else ''-A'') (''fwd_input_'' @ tapDevice))
            (ipTableRules tapDevice ipPrefix [] delete)"
    unfolding ipTableRules_def Let_def filter_forward_input
    by (simp add: forwardInputRules_def prefixCommands_map vpnRoutes_Nil comp_def)
  moreover have "filter (ruleOn (if delete then ''-D'' else ''-A'') (''fwd_output_'' @ tapDevice))
        (ipTableRules tapDevice ipPrefix vpns delete)
      = map (\<lambda>dr. [''iptables'', ''-w'', xtableLockWait, if delete then ''-D'' else ''-A'',
                    ''fwd_output_'' @ tapDevice] @ vpnOutputRule (ipPrefix @ ''.0/24'') dr)
          (vpnRoutes vpns)
        @ filter (ruleOn (if delete then ''-D'' else ''-A'') (''fwd_output_'' @ tapDevice))
            (ipTableRules tapDevice ipPrefix [] delete)"
    unfolding ipTableRules_def Let_def filter_forward_output
    by (simp add: forwardOutputRules_def prefixCommands_map vpnRoutes_Nil comp_def)
  moreover have "isIPv4 [10, 1, 2, 3]"
    "\<not> isIPv4 [0x20, 0x01, 0x0d, 0xb8, 0, 0, 0, 0, 0, 0, 0, 0, 0, 0, 0, 1]"
    by (simp_all add: isIPv4_def To4_def)
  ultimately show ?thesis
    by (simp add: vpnLoop_eq length_vpnRoutes exampleVPN_rules)
qed

section \<open>Namespace isolation between tapA and tapB\<close>























end
